theory Spec2Isabelle
  imports Main "HOL-Library.AList"
begin

section \<open>Python strings and number formatting\<close>

text \<open>
  The script formats integers in two ways: \<^verbatim>\<open>str(n)\<close> / \<^verbatim>\<open>f'{n}'\<close> (plain decimal, a
  leading minus sign for a negative number) and \<^verbatim>\<open>f'{i:0{w}}'\<close> (decimal, filled with
  zeros on the left up to the minimum width \<open>w\<close>; never truncated). The second form is
  only ever applied to indices that come out of \<^verbatim>\<open>range\<close> or \<^verbatim>\<open>enumerate\<close>, so
  it is modelled on \<open>nat\<close>.
\<close>

definition digit_char :: "nat \<Rightarrow> char" where
  "digit_char d = ''0123456789'' ! d"

fun str_nat :: "nat \<Rightarrow> string" where
  "str_nat n =
     (if n < 10 then [digit_char n] else str_nat (n div 10) @ [digit_char (n mod 10)])"

declare str_nat.simps [simp del]

definition py_str :: "int \<Rightarrow> string" where
  "py_str i = (if i < 0 then CHR ''-'' # str_nat (nat (- i)) else str_nat (nat i))"

definition fmt_zero :: "nat \<Rightarrow> nat \<Rightarrow> string" where
  "fmt_zero w i = replicate (w - length (str_nat i)) CHR ''0'' @ str_nat i"

text \<open>Reading a digit string back; used to show that formatting is injective.\<close>

definition digit_val :: "char \<Rightarrow> nat" where
  "digit_val c = of_char c - 48"

definition digits_val :: "string \<Rightarrow> nat" where
  "digits_val s = foldl (\<lambda>a c. 10 * a + digit_val c) 0 s"

section \<open>Tables, rows and the store\<close>

text \<open>
  A column is \<^verbatim>\<open>Column(name, String(width))\<close>; the table descriptor is the ordered
  sequence of its columns. A row handed to an insert is a Python dict from column name
  to value: an association list in insertion order whose keys are kept unique by
  \<^const>\<open>AList.update\<close>. A stored row is the tuple of its values in column order, with
  \<open>None\<close> for SQL NULL.
\<close>

record column =
  col_name :: string
  col_width :: nat

record table =
  tab_columns :: "column list"

type_synonym row = "(string \<times> string) list"

type_synonym db_row = "string option list"

definition dict_of :: "('k \<times> 'v) list \<Rightarrow> ('k \<times> 'v) list" where
  "dict_of kvs = foldl (\<lambda>d (k, v). AList.update k v d) [] kvs"


text \<open>
  Every exception the script can meet is a value. The two \<^verbatim>\<open>assert\<close> statements are
  told apart by their source line. \<open>CompileError\<close> and \<open>StatementError\<close> are raised by
  the database layer before a statement reaches the store, \<open>OperationalError\<close> by the
  store itself.
\<close>

datatype error =
    AssertionError nat
  | IndexError
  | TypeError
  | CompileError
  | StatementError
  | OperationalError

text \<open>
  The store behind the connect string is not part of the script; what the script can
  observe of it are its limits. A table needs at least \<open>min_columns\<close> and at most
  \<open>max_columns\<close> columns, and one statement takes at most \<open>max_params\<close> bound
  parameters. \<open>sqlite\<close> holds the limits of SQLite as it is built by default, the store
  of the script's default connect string. Declared column widths are not enforced, as in
  SQLite.
\<close>

record store =
  min_columns :: int
  max_columns :: int
  max_params :: int

definition sqlite :: store where
  "sqlite = \<lparr>min_columns = 1, max_columns = 2000, max_params = 32766\<rparr>"

text \<open>
  The session is the script's only handle on the store. Its state is the table content
  the open transaction sees (\<open>visible\<close>), the content last committed (\<open>durable\<close>) and the
  sequence of calls the script has issued on it (\<open>calls\<close>), a call that raised included.
\<close>

datatype stmt = SelectCount | QueryLast | DeleteAll

datatype insert_stmt = InsertValues "row list" | InsertMany "row list"

datatype call = Execute stmt | ExecuteInsert insert_stmt | Commit

record session =
  visible :: "db_row list"
  durable :: "db_row list"
  calls :: "call list"

text \<open>
  \<^verbatim>\<open>session.execute\<close> on the count, the ordered query and the delete: nothing in these
  statements depends on the rows of the script, and they are taken to succeed.
\<close>

fun execute :: "table \<Rightarrow> stmt \<Rightarrow> session \<Rightarrow> session" where
  "execute t SelectCount s = s\<lparr>calls := calls s @ [Execute SelectCount]\<rparr>"
| "execute t QueryLast s = s\<lparr>calls := calls s @ [Execute QueryLast]\<rparr>"
| "execute t DeleteAll s = s\<lparr>visible := [], calls := calls s @ [Execute DeleteAll]\<rparr>"

definition commit :: "session \<Rightarrow> session" where
  "commit s = s\<lparr>durable := visible s, calls := calls s @ [Commit]\<rparr>"

subsection \<open>Inserts\<close>

text \<open>
  \<^verbatim>\<open>session.execute\<close> on an insert compiles the statement against the parameter sets
  it is given, and can raise. Both forms take the columns of the INSERT from the first
  parameter set: the table's columns that are keys of it. An empty list of parameter
  sets is executed once without parameters (the strategies never send one).

  \<^verbatim>\<open>execute(insert.values(buffer))\<close> renders one statement with a bound parameter for
  every named column of every row. It raises \<open>CompileError\<close> when the first row has a
  key that is no column of the table or when a later row lacks a key of the first, and
  the store raises \<open>OperationalError\<close> when the statement has more bound parameters
  than it takes.

  \<^verbatim>\<open>execute(insert, buffer)\<close> renders the single-row statement and runs it once per
  row. Keys that are no column are ignored. It raises \<open>StatementError\<close> when a later
  row lacks a named column, and the store raises \<open>OperationalError\<close> when one row
  already has more bound parameters than it takes.

  In both forms keys of later rows that the first row does not have are ignored, and a
  column that is not named is stored as NULL. A statement that raises stores nothing.
\<close>

definition param_sets :: "row list \<Rightarrow> row list" where
  "param_sets buffer = (if buffer = [] then [[]] else buffer)"

definition insert_columns :: "table \<Rightarrow> row list \<Rightarrow> string list" where
  "insert_columns t buffer =
     filter (\<lambda>n. n \<in> set (map fst (hd (param_sets buffer)))) (map col_name (tab_columns t))"

definition stored_row :: "table \<Rightarrow> string list \<Rightarrow> row \<Rightarrow> db_row" where
  "stored_row t cols r =
     map (\<lambda>c. if col_name c \<in> set cols then map_of r (col_name c) else None) (tab_columns t)"

definition lacks_key :: "string list \<Rightarrow> row \<Rightarrow> bool" where
  "lacks_key ks r = list_ex (\<lambda>k. k \<notin> set (map fst r)) ks"

fun rejected :: "store \<Rightarrow> table \<Rightarrow> insert_stmt \<Rightarrow> error option" where
  "rejected st t (InsertValues buffer) =
     (if list_ex (\<lambda>k. k \<notin> set (map col_name (tab_columns t))) (map fst (hd (param_sets buffer)))
      then Some CompileError
      else if list_ex (lacks_key (insert_columns t buffer)) (tl (param_sets buffer))
      then Some CompileError
      else if max_params st
                < int (length (insert_columns t buffer)) * int (length (param_sets buffer))
      then Some OperationalError
      else None)"
| "rejected st t (InsertMany buffer) =
     (if list_ex (lacks_key (insert_columns t buffer)) (tl (param_sets buffer))
      then Some StatementError
      else if max_params st < int (length (insert_columns t buffer))
      then Some OperationalError
      else None)"

fun params_of :: "insert_stmt \<Rightarrow> row list" where
  "params_of (InsertValues buffer) = buffer"
| "params_of (InsertMany buffer) = buffer"

definition execute_insert ::
  "store \<Rightarrow> table \<Rightarrow> insert_stmt \<Rightarrow> session \<Rightarrow> error option \<times> session" where
  "execute_insert st t ins s =
     (let s' = s\<lparr>calls := calls s @ [ExecuteInsert ins]\<rparr> in
      case rejected st t ins of
        Some e \<Rightarrow> (Some e, s')
      | None \<Rightarrow>
          (None,
           s'\<lparr>visible := visible s
                 @ map (stored_row t (insert_columns t (params_of ins)))
                       (param_sets (params_of ins))\<rparr>))"

section \<open>setup_db and row generation\<close>

text \<open>
  Lines 23 to 27 build the descriptor \<^verbatim>\<open>mytable\<close>; \<^verbatim>\<open>meta.create_all\<close> then creates
  the table in the store, which raises when the store does not take a table of that many
  columns. A table that exists already is taken to have this schema.
\<close>

definition mytable :: "int \<Rightarrow> nat \<Rightarrow> nat \<Rightarrow> table" where
  "mytable number_of_cols col_pad row_pad =
     \<lparr>tab_columns =
        map (\<lambda>i. \<lparr>col_name = ''col'' @ fmt_zero col_pad i,
                  col_width = col_pad + row_pad + 8\<rparr>)
            [0..<nat number_of_cols]\<rparr>"

definition create_all :: "store \<Rightarrow> table \<Rightarrow> error option" where
  "create_all st t =
     (if int (length (tab_columns t)) < min_columns st
         \<or> max_columns st < int (length (tab_columns t))
      then Some OperationalError else None)"

definition setup_db :: "store \<Rightarrow> int \<Rightarrow> int \<Rightarrow> nat \<Rightarrow> nat \<Rightarrow> error + table" where
  "setup_db st number_of_cols number_of_rows col_pad row_pad =
     (case create_all st (mytable number_of_cols col_pad row_pad) of
        Some e \<Rightarrow> Inl e
      | None \<Rightarrow> Inr (mytable number_of_cols col_pad row_pad))"

text \<open>The list comprehension of \<^verbatim>\<open>benchmark\<close> that builds \<^verbatim>\<open>rows\<close>.\<close>

definition cell_value :: "nat \<Rightarrow> nat \<Rightarrow> nat \<Rightarrow> nat \<Rightarrow> string" where
  "cell_value row_pad col_pad r c =
     ''row'' @ fmt_zero row_pad r @ ''_col'' @ fmt_zero col_pad c"

definition generate_rows :: "table \<Rightarrow> int \<Rightarrow> nat \<Rightarrow> nat \<Rightarrow> row list" where
  "generate_rows t number_of_rows row_pad col_pad =
     map (\<lambda>r. dict_of (map (\<lambda>(c, col). (col_name col, cell_value row_pad col_pad r c))
                            (enumerate 0 (tab_columns t))))
         [0..<nat number_of_rows]"

definition pad_of :: "int \<Rightarrow> nat" where
  "pad_of n = length (py_str n) - 1"

section \<open>The two insertion strategies\<close>

text \<open>
  The \<^verbatim>\<open>for\<close> loop of each strategy, as a recursion over the rows still to come
  that carries the local \<^verbatim>\<open>buffer\<close> and the session. \<^verbatim>\<open>buffer_size\<close> is a Python
  int and is compared as one. A flush that raises ends the loop with the exception, the
  buffer and the session as they are at that point.
\<close>

fun params_loop ::
  "store \<Rightarrow> table \<Rightarrow> int \<Rightarrow> row list \<Rightarrow> row list \<Rightarrow> session
     \<Rightarrow> error option \<times> row list \<times> session" where
  "params_loop st t buffer_size [] buffer s = (None, buffer, s)"
| "params_loop st t buffer_size (row # rows) buffer s =
     (let buffer = buffer @ [row] in
      if int (length buffer) \<ge> buffer_size
      then (case execute_insert st t (InsertValues buffer) s of
              (Some e, s') \<Rightarrow> (Some e, buffer, s')
            | (None, s') \<Rightarrow> params_loop st t buffer_size rows [] s')
      else params_loop st t buffer_size rows buffer s)"

text \<open>
  The body of \<^verbatim>\<open>insert_values_params\<close> up to the commit, returning the final value
  of the local \<^verbatim>\<open>buffer\<close> next to the session.
\<close>

definition params_flushed ::
  "store \<Rightarrow> session \<Rightarrow> table \<Rightarrow> row list \<Rightarrow> int \<Rightarrow> error option \<times> row list \<times> session" where
  "params_flushed st s t rows buffer_size =
     (case params_loop st t buffer_size rows [] s of
        (Some e, buffer, s') \<Rightarrow> (Some e, buffer, s')
      | (None, buffer, s') \<Rightarrow>
          if length buffer > 0
          then (case execute_insert st t (InsertValues buffer) s' of
                  (Some e, s'') \<Rightarrow> (Some e, buffer, s'')
                | (None, s'') \<Rightarrow> (None, [], s''))
          else (None, buffer, s'))"

definition insert_values_params ::
  "store \<Rightarrow> session \<Rightarrow> table \<Rightarrow> row list \<Rightarrow> int \<Rightarrow> error option \<times> session" where
  "insert_values_params st s t rows buffer_size =
     (case params_flushed st s t rows buffer_size of
        (Some e, buffer, s') \<Rightarrow> (Some e, s')
      | (None, buffer, s') \<Rightarrow> (None, commit s'))"

fun executemany_loop ::
  "store \<Rightarrow> table \<Rightarrow> int \<Rightarrow> row list \<Rightarrow> row list \<Rightarrow> session
     \<Rightarrow> error option \<times> row list \<times> session" where
  "executemany_loop st t buffer_size [] buffer s = (None, buffer, s)"
| "executemany_loop st t buffer_size (row # rows) buffer s =
     (let buffer = buffer @ [row] in
      if int (length buffer) \<ge> buffer_size
      then (case execute_insert st t (InsertMany buffer) s of
              (Some e, s') \<Rightarrow> (Some e, buffer, s')
            | (None, s') \<Rightarrow> executemany_loop st t buffer_size rows [] s')
      else executemany_loop st t buffer_size rows buffer s)"

definition executemany_flushed ::
  "store \<Rightarrow> session \<Rightarrow> table \<Rightarrow> row list \<Rightarrow> int \<Rightarrow> error option \<times> row list \<times> session" where
  "executemany_flushed st s t rows buffer_size =
     (case executemany_loop st t buffer_size rows [] s of
        (Some e, buffer, s') \<Rightarrow> (Some e, buffer, s')
      | (None, buffer, s') \<Rightarrow>
          if length buffer > 0
          then (case execute_insert st t (InsertMany buffer) s' of
                  (Some e, s'') \<Rightarrow> (Some e, buffer, s'')
                | (None, s'') \<Rightarrow> (None, [], s''))
          else (None, buffer, s'))"

definition insert_values_executemany ::
  "store \<Rightarrow> session \<Rightarrow> table \<Rightarrow> row list \<Rightarrow> int \<Rightarrow> error option \<times> session" where
  "insert_values_executemany st s t rows buffer_size =
     (case executemany_flushed st s t rows buffer_size of
        (Some e, buffer, s') \<Rightarrow> (Some e, s')
      | (None, buffer, s') \<Rightarrow> (None, commit s'))"

section \<open>check_and_clean\<close>

text \<open>
  Every way the function can stop early is an error value. \<^verbatim>\<open>table.c[0]\<close> raises
  IndexError on a table without columns, and \<^verbatim>\<open>.first()\<close> returns \<^verbatim>\<open>None\<close> on an empty
  table, whose subscript raises TypeError.
\<close>


text \<open>
  Text is ordered by code point, character by character, a proper prefix first; NULL
  sorts below every text.
\<close>

fun str_less :: "string \<Rightarrow> string \<Rightarrow> bool" where
  "str_less [] [] = False"
| "str_less [] (y # ys) = True"
| "str_less (x # xs) [] = False"
| "str_less (x # xs) (y # ys) =
     ((of_char x :: nat) < of_char y \<or> (x = y \<and> str_less xs ys))"

fun val_less :: "string option \<Rightarrow> string option \<Rightarrow> bool" where
  "val_less None None = False"
| "val_less None (Some b) = True"
| "val_less (Some a) None = False"
| "val_less (Some a) (Some b) = str_less a b"

definition sort_key :: "db_row \<Rightarrow> string option" where
  "sort_key r = (case r of [] \<Rightarrow> None | v # _ \<Rightarrow> v)"

text \<open>
  \<^verbatim>\<open>order_by(table.c[0].desc()).first()\<close>: a stored row whose first column is greatest,
  or nothing for an empty table. Among rows with the same first column the earliest
  stored one is taken.
\<close>

fun first_desc :: "db_row list \<Rightarrow> db_row option" where
  "first_desc [] = None"
| "first_desc (r # rs) =
     (case first_desc rs of
        None \<Rightarrow> Some r
      | Some m \<Rightarrow> if val_less (sort_key r) (sort_key m) then Some m else Some r)"

definition expected_last :: "int \<Rightarrow> int \<Rightarrow> string" where
  "expected_last number_of_rows number_of_cols =
     ''row'' @ py_str (number_of_rows - 1) @ ''_col'' @ py_str (number_of_cols - 1)"

definition check_and_clean ::
  "session \<Rightarrow> table \<Rightarrow> int \<Rightarrow> int \<Rightarrow> int \<Rightarrow> int \<Rightarrow> error option \<times> session" where
  "check_and_clean s t number_of_rows number_of_cols timeit_number timeit_repeat =
     (let s1 = execute t SelectCount s;
          count = int (length (visible s1))
      in if count \<noteq> timeit_repeat * timeit_number * number_of_rows
         then (Some (AssertionError 69), s1)
         else if tab_columns t = [] then (Some IndexError, s1)
         else
           (let s2 = execute t QueryLast s1 in
            case first_desc (visible s2) of
              None \<Rightarrow> (Some TypeError, s2)
            | Some last_row \<Rightarrow>
                if last_row = [] then (Some IndexError, s2)
                else if last last_row \<noteq> Some (expected_last number_of_rows number_of_cols)
                then (Some (AssertionError 73), s2)
                else (None, commit (execute t DeleteAll s2))))"

section \<open>The timing harness and the benchmark\<close>

text \<open>
  \<^verbatim>\<open>timeit.repeat(stmt, repeat=r, number=n)\<close> runs the statement \<open>n\<close> times in each of
  \<open>r\<close> trials; a count below zero runs nothing, and an exception in a run ends the
  whole call. Only the effect on the session is kept, not the timings.
\<close>

fun run_times ::
  "nat \<Rightarrow> (session \<Rightarrow> error option \<times> session) \<Rightarrow> session \<Rightarrow> error option \<times> session" where
  "run_times 0 stmt s = (None, s)"
| "run_times (Suc n) stmt s =
     (case stmt s of
        (Some e, s') \<Rightarrow> (Some e, s')
      | (None, s') \<Rightarrow> run_times n stmt s')"

definition timeit_repeat_run ::
  "(session \<Rightarrow> error option \<times> session) \<Rightarrow> int \<Rightarrow> int \<Rightarrow> session \<Rightarrow> error option \<times> session" where
  "timeit_repeat_run stmt repeat number s =
     run_times (nat repeat) (run_times (nat number) stmt) s"

datatype strategy = Params | Executemany

fun run_strategy ::
  "store \<Rightarrow> strategy \<Rightarrow> session \<Rightarrow> table \<Rightarrow> row list \<Rightarrow> int \<Rightarrow> error option \<times> session" where
  "run_strategy st Params s t rows buffer_size = insert_values_params st s t rows buffer_size"
| "run_strategy st Executemany s t rows buffer_size =
     insert_values_executemany st s t rows buffer_size"

text \<open>
  One pass of the \<^verbatim>\<open>for stmt in [...]\<close> loop of \<^verbatim>\<open>benchmark\<close>: a new session on the
  store, the delete that empties the table, the timed runs, then \<^verbatim>\<open>check_and_clean\<close>.
\<close>

definition open_session :: "db_row list \<Rightarrow> session" where
  "open_session db = \<lparr>visible = db, durable = db, calls = []\<rparr>"

definition timed_runs ::
  "store \<Rightarrow> strategy \<Rightarrow> table \<Rightarrow> row list \<Rightarrow> int \<Rightarrow> int \<Rightarrow> int \<Rightarrow> db_row list
     \<Rightarrow> error option \<times> session" where
  "timed_runs st strat t rows timeit_number timeit_repeat buffer_size db =
     timeit_repeat_run (\<lambda>s. run_strategy st strat s t rows buffer_size) timeit_repeat timeit_number
       (execute t DeleteAll (open_session db))"

definition benchmark_stmt ::
  "store \<Rightarrow> strategy \<Rightarrow> table \<Rightarrow> row list \<Rightarrow> int \<Rightarrow> int \<Rightarrow> int \<Rightarrow> int \<Rightarrow> int \<Rightarrow> db_row list
     \<Rightarrow> error option \<times> session" where
  "benchmark_stmt st strat t rows number_of_cols number_of_rows timeit_number timeit_repeat
       buffer_size db =
     (case timed_runs st strat t rows timeit_number timeit_repeat buffer_size db of
        (Some e, s) \<Rightarrow> (Some e, s)
      | (None, s) \<Rightarrow>
          check_and_clean s t number_of_rows number_of_cols timeit_number timeit_repeat)"

text \<open>
  \<^verbatim>\<open>benchmark\<close> on a store whose table holds \<open>db\<close> when the run starts (nothing, for a
  table that \<^verbatim>\<open>setup_db\<close> has just created): the exception that ends the run, if any,
  and the committed content of the table at that point. A session that is left by an
  exception loses what it has not committed. There is no table when \<^verbatim>\<open>setup_db\<close>
  raises, and a run that passes both checks ends by dropping it; both leave \<open>None\<close>.
\<close>

definition benchmark ::
  "store \<Rightarrow> int \<Rightarrow> int \<Rightarrow> int \<Rightarrow> int \<Rightarrow> int \<Rightarrow> db_row list
     \<Rightarrow> error option \<times> db_row list option" where
  "benchmark st number_of_cols number_of_rows timeit_number timeit_repeat buffer_size db =
     (let col_pad = pad_of number_of_cols;
          row_pad = pad_of number_of_rows
      in case setup_db st number_of_cols number_of_rows col_pad row_pad of
           Inl e \<Rightarrow> (Some e, None)
         | Inr t \<Rightarrow>
             (let rows = generate_rows t number_of_rows row_pad col_pad
              in case benchmark_stmt st Params t rows number_of_cols number_of_rows
                        timeit_number timeit_repeat buffer_size db of
                   (Some e, s) \<Rightarrow> (Some e, Some (durable s))
                 | (None, s) \<Rightarrow>
                     (case benchmark_stmt st Executemany t rows number_of_cols number_of_rows
                             timeit_number timeit_repeat buffer_size (durable s) of
                        (Some e, s') \<Rightarrow> (Some e, Some (durable s'))
                      | (None, s') \<Rightarrow> (None, None))))"

section \<open>Rows keyed by the table's columns are accepted\<close>










lemma execute_insert_raises:
  "execute_insert st t ins s = (Some e, s') \<Longrightarrow> visible s' = visible s \<and> durable s' = durable s"
  by (auto simp: execute_insert_def Let_def split: option.splits)

section \<open>The loops on accepted rows\<close>







section \<open>The calls of one invocation\<close>





section \<open>Formatting is injective\<close>

lemma digit_val_digit_char: "d < 10 \<Longrightarrow> digit_val (digit_char d) = d"
proof -
  assume "d < 10"
  then have "d \<in> {0, 1, 2, 3, 4, 5, 6, 7, 8, 9}" by auto
  then show ?thesis
    by (auto simp: digit_val_def digit_char_def)
qed

lemma digits_val_snoc: "digits_val (s @ [c]) = 10 * digits_val s + digit_val c"
  by (simp add: digits_val_def)

lemma digits_val_str_nat: "digits_val (str_nat n) = n"
proof (induction n rule: str_nat.induct)
  case (1 n)
  show ?case
  proof (cases "n < 10")
    case True
    then show ?thesis
      by (simp add: str_nat.simps [of n] digits_val_def digit_val_digit_char)
  next
    case False
    with 1 show ?thesis
      by (simp add: str_nat.simps [of n] digits_val_snoc digit_val_digit_char)
  qed
qed

lemma foldl_zeros:
  "foldl (\<lambda>a c. 10 * a + digit_val c) 0 (replicate k CHR ''0'') = 0"
  by (induction k) (simp_all add: digit_val_def)

lemma digits_val_fmt_zero: "digits_val (fmt_zero w i) = i"
  using digits_val_str_nat [of i]
  by (simp add: fmt_zero_def digits_val_def foldl_zeros)

lemma fmt_zero_inj: "fmt_zero w i = fmt_zero w j \<Longrightarrow> i = j"
  by (metis digits_val_fmt_zero)

lemma length_str_nat_pos: "0 < length (str_nat n)"
  by (subst str_nat.simps) simp

section \<open>Generated columns and rows\<close>

lemma update_new_key: "k \<notin> fst ` set d \<Longrightarrow> AList.update k v d = d @ [(k, v)]"
  by (induction d) auto

lemma foldl_update_distinct:
  "distinct (map fst (d @ kvs)) \<Longrightarrow>
     foldl (\<lambda>d (k, v). AList.update k v d) d kvs = d @ kvs"
proof (induction kvs arbitrary: d)
  case Nil
  show ?case by simp
next
  case (Cons kv kvs)
  obtain k v where kv: "kv = (k, v)" by (cases kv)
  from Cons.prems kv have new: "k \<notin> fst ` set d" by auto
  from Cons.prems kv have "distinct (map fst ((d @ [(k, v)]) @ kvs))" by simp
  from Cons.IH [OF this] new kv show ?case
    by (simp add: update_new_key)
qed

lemma dict_of_distinct: "distinct (map fst kvs) \<Longrightarrow> dict_of kvs = kvs"
  using foldl_update_distinct [of "[]" kvs] by (simp add: dict_of_def)

lemma col_names_mytable:
  "map col_name (tab_columns (mytable nc cp rp)) = map (\<lambda>i. ''col'' @ fmt_zero cp i) [0..<nat nc]"
  by (simp add: mytable_def comp_def)

lemma distinct_col_names:
  "distinct (map col_name (tab_columns (mytable nc cp rp)))"
  unfolding col_names_mytable
  by (auto simp: distinct_map inj_on_def dest: fmt_zero_inj)

lemma enumerate_mytable:
  "map (\<lambda>(c, col). (col_name col, f c)) (enumerate 0 (tab_columns (mytable nc cp rp)))
     = map (\<lambda>c. (''col'' @ fmt_zero cp c, f c)) [0..<nat nc]"
  by (auto simp: mytable_def enumerate_eq_zip intro!: nth_equalityI)

lemma generate_rows_mytable:
  "generate_rows (mytable nc cp rp) n rp' cp'
     = map (\<lambda>r. map (\<lambda>c. (''col'' @ fmt_zero cp c, cell_value rp' cp' r c)) [0..<nat nc])
           [0..<nat n]"
proof -
  have "dict_of (map (\<lambda>c. (''col'' @ fmt_zero cp c, cell_value rp' cp' r c)) [0..<nat nc])
          = map (\<lambda>c. (''col'' @ fmt_zero cp c, cell_value rp' cp' r c)) [0..<nat nc]" for r
    by (rule dict_of_distinct) (auto simp: distinct_map comp_def inj_on_def dest: fmt_zero_inj)
  then show ?thesis
    by (simp add: generate_rows_def enumerate_mytable)
qed

lemma length_mytable: "length (tab_columns (mytable nc cp rp)) = nat nc"
  by (simp add: mytable_def)

lemma nth_col_name:
  "i < nat nc \<Longrightarrow> col_name (tab_columns (mytable nc cp rp) ! i) = ''col'' @ fmt_zero cp i"
  by (simp add: mytable_def)

lemma keys_generate_rows:
  "row \<in> set (generate_rows (mytable nc cp rp) n rp' cp') \<Longrightarrow>
     map fst row = map col_name (tab_columns (mytable nc cp rp))"
  by (auto simp: generate_rows_mytable col_names_mytable comp_def)

lemma length_generate_rows: "length (generate_rows t n rp cp) = nat n"
  by (simp add: generate_rows_def)


section \<open>Repeated runs\<close>







section \<open>Row counts and stored content\<close>







section \<open>The flush discipline\<close>




subsection \<open>A buffer size below one\<close>








section \<open>The self-check\<close>

lemma check_and_clean_failure:
  "check_and_clean s t nr nc tn tr = (Some e, s') \<Longrightarrow>
     visible s' = visible s \<and> durable s' = durable s
     \<and> (calls s' = calls s @ [Execute SelectCount]
          \<or> calls s' = calls s @ [Execute SelectCount, Execute QueryLast])"
  by (auto simp: check_and_clean_def Let_def split: if_splits option.splits)

lemma check_and_clean_success:
  "check_and_clean s t nr nc tn tr = (None, s') \<Longrightarrow>
     int (length (visible s)) = tr * tn * nr
     \<and> (\<exists>last_row. first_desc (visible s) = Some last_row \<and> last_row \<noteq> []
           \<and> last last_row = Some (expected_last nr nc))
     \<and> calls s' = calls s @ [Execute SelectCount, Execute QueryLast, Execute DeleteAll, Commit]
     \<and> visible s' = [] \<and> durable s' = []"
  by (auto simp: check_and_clean_def Let_def commit_def split: if_splits option.splits)

lemma check_and_clean_count_fails:
  "int (length (visible s)) \<noteq> tr * tn * nr \<Longrightarrow>
     fst (check_and_clean s t nr nc tn tr) = Some (AssertionError 69)"
  by (simp add: check_and_clean_def)

lemma check_and_clean_last_fails:
  "int (length (visible s)) = tr * tn * nr \<Longrightarrow> tab_columns t \<noteq> [] \<Longrightarrow>
   first_desc (visible s) = Some last_row \<Longrightarrow> last_row \<noteq> [] \<Longrightarrow>
   last last_row \<noteq> Some (expected_last nr nc) \<Longrightarrow>
     fst (check_and_clean s t nr nc tn tr) = Some (AssertionError 73)"
  by (simp add: check_and_clean_def)

text \<open>
  Claim C7. A count mismatch makes \<^verbatim>\<open>check_and_clean\<close> stop with the assertion
  error of line 69, a last-value mismatch with that of line 73. Whenever it stops with an
  error, the table content (visible and committed) is what it was and neither the
  delete-all nor a commit is among the calls it issued. When it returns normally, both
  asserted conditions held and the delete-all and the commit were its last two calls.
\<close>

theorem check_and_clean_aborts_before_delete:
  assumes "check_and_clean s t number_of_rows number_of_cols timeit_number timeit_repeat = (r, s')"
  shows "(int (length (visible s)) \<noteq> timeit_repeat * timeit_number * number_of_rows \<longrightarrow>
            r = Some (AssertionError 69))
       \<and> (int (length (visible s)) = timeit_repeat * timeit_number * number_of_rows
            \<and> tab_columns t \<noteq> [] \<and> first_desc (visible s) = Some last_row \<and> last_row \<noteq> []
            \<and> last last_row \<noteq> Some (expected_last number_of_rows number_of_cols) \<longrightarrow>
            r = Some (AssertionError 73))
       \<and> (r \<noteq> None \<longrightarrow>
            visible s' = visible s \<and> durable s' = durable s
            \<and> Execute DeleteAll \<notin> set (drop (length (calls s)) (calls s'))
            \<and> Commit \<notin> set (drop (length (calls s)) (calls s')))
       \<and> (r = None \<longrightarrow>
            int (length (visible s)) = timeit_repeat * timeit_number * number_of_rows
            \<and> (\<exists>row. first_desc (visible s) = Some row \<and> row \<noteq> []
                  \<and> last row = Some (expected_last number_of_rows number_of_cols))
            \<and> calls s' = calls s @ [Execute SelectCount, Execute QueryLast, Execute DeleteAll, Commit])"
proof (intro conjI impI)
  assume "int (length (visible s)) \<noteq> timeit_repeat * timeit_number * number_of_rows"
  from check_and_clean_count_fails [OF this, of t number_of_cols] assms
  show "r = Some (AssertionError 69)" by simp
next
  assume a: "int (length (visible s)) = timeit_repeat * timeit_number * number_of_rows
            \<and> tab_columns t \<noteq> [] \<and> first_desc (visible s) = Some last_row \<and> last_row \<noteq> []
            \<and> last last_row \<noteq> Some (expected_last number_of_rows number_of_cols)"
  then have "fst (check_and_clean s t number_of_rows number_of_cols timeit_number timeit_repeat)
               = Some (AssertionError 73)"
    by (blast intro: check_and_clean_last_fails)
  with assms show "r = Some (AssertionError 73)" by simp
next
  assume "r \<noteq> None"
  then obtain e where "r = Some e" by auto
  with assms have f: "visible s' = visible s \<and> durable s' = durable s
     \<and> (calls s' = calls s @ [Execute SelectCount]
          \<or> calls s' = calls s @ [Execute SelectCount, Execute QueryLast])"
    by (intro check_and_clean_failure) simp
  from f show "visible s' = visible s" by simp
  from f show "durable s' = durable s" by simp
  from f show "Execute DeleteAll \<notin> set (drop (length (calls s)) (calls s'))" by auto
  from f show "Commit \<notin> set (drop (length (calls s)) (calls s'))" by auto
next
  assume "r = None"
  with assms have ok: "check_and_clean s t number_of_rows number_of_cols timeit_number timeit_repeat = (None, s')"
    by simp
  note s = check_and_clean_success [OF ok]
  from s show "int (length (visible s)) = timeit_repeat * timeit_number * number_of_rows" by simp
  from s show "\<exists>row. first_desc (visible s) = Some row \<and> row \<noteq> []
                  \<and> last row = Some (expected_last number_of_rows number_of_cols)" by simp
  from s show "calls s' = calls s @ [Execute SelectCount, Execute QueryLast, Execute DeleteAll, Commit]"
    by simp
qed

theorem check_and_clean_aborts_before_delete_witness:
  "check_and_clean \<lparr>visible = [[Some ''row0_col0'']], durable = [], calls = []\<rparr>
       (mytable 1 0 0) 2 1 1 1
     = (Some (AssertionError 69),
        \<lparr>visible = [[Some ''row0_col0'']], durable = [], calls = [Execute SelectCount]\<rparr>)
   \<and> check_and_clean \<lparr>visible = [[Some ''row0_col0'']], durable = [], calls = []\<rparr>
       (mytable 1 0 0) 1 2 1 1
     = (Some (AssertionError 73),
        \<lparr>visible = [[Some ''row0_col0'']], durable = [],
         calls = [Execute SelectCount, Execute QueryLast]\<rparr>)
   \<and> check_and_clean \<lparr>visible = [[Some ''row0_col0'']], durable = [], calls = []\<rparr>
       (mytable 1 0 0) 1 1 1 1
     = (None,
        \<lparr>visible = [], durable = [],
         calls = [Execute SelectCount, Execute QueryLast, Execute DeleteAll, Commit]\<rparr>)
   \<and> Execute DeleteAll \<notin> set (drop 0 [Execute SelectCount])
   \<and> Commit \<notin> set (drop 0 [Execute SelectCount, Execute QueryLast])
   \<and> first_desc [[Some ''row0_col0'']] = Some [Some ''row0_col0'']
   \<and> expected_last 1 1 = ''row0_col0''"
  using check_and_clean_aborts_before_delete
      [of "\<lparr>visible = [[Some ''row0_col0'']], durable = [], calls = []\<rparr>" "mytable 1 0 0" 2 1 1 1
          "Some (AssertionError 69)"
          "\<lparr>visible = [[Some ''row0_col0'']], durable = [], calls = [Execute SelectCount]\<rparr>"]
    check_and_clean_aborts_before_delete
      [of "\<lparr>visible = [[Some ''row0_col0'']], durable = [], calls = []\<rparr>" "mytable 1 0 0" 1 2 1 1
          "Some (AssertionError 73)"
          "\<lparr>visible = [[Some ''row0_col0'']], durable = [],
            calls = [Execute SelectCount, Execute QueryLast]\<rparr>" "[Some ''row0_col0'']"]
    check_and_clean_aborts_before_delete
      [of "\<lparr>visible = [[Some ''row0_col0'']], durable = [], calls = []\<rparr>" "mytable 1 0 0" 1 1 1 1
          None
          "\<lparr>visible = [], durable = [],
            calls = [Execute SelectCount, Execute QueryLast, Execute DeleteAll, Commit]\<rparr>"]
  by (simp add: check_and_clean_def commit_def mytable_def expected_last_def py_str_def
      str_nat.simps digit_char_def sort_key_def)

text \<open>
  Claim C8. After a \<^verbatim>\<open>check_and_clean\<close> that returns normally the table holds no
  rows, for the session and as committed: the delete-all and the commit were issued.
\<close>

theorem check_and_clean_leaves_empty:
  "check_and_clean s t number_of_rows number_of_cols timeit_number timeit_repeat = (None, s') \<Longrightarrow>
     visible s' = [] \<and> durable s' = []
     \<and> calls s' = calls s @ [Execute SelectCount, Execute QueryLast, Execute DeleteAll, Commit]"
  using check_and_clean_success by blast

theorem check_and_clean_leaves_empty_witness:
  "check_and_clean \<lparr>visible = [[Some ''row0_col0''], [Some ''row1_col0'']], durable = [], calls = []\<rparr>
       (mytable 1 0 0) 2 1 1 1
     = (None,
        \<lparr>visible = [], durable = [],
         calls = [Execute SelectCount, Execute QueryLast, Execute DeleteAll, Commit]\<rparr>)
   \<and> visible \<lparr>visible = [], durable = [],
         calls = [Execute SelectCount, Execute QueryLast, Execute DeleteAll, Commit]\<rparr> = []"
  using check_and_clean_leaves_empty
      [of "\<lparr>visible = [[Some ''row0_col0''], [Some ''row1_col0'']], durable = [], calls = []\<rparr>"
          "mytable 1 0 0" 2 1 1 1
          "\<lparr>visible = [], durable = [],
            calls = [Execute SelectCount, Execute QueryLast, Execute DeleteAll, Commit]\<rparr>"]
  by (simp add: check_and_clean_def commit_def mytable_def expected_last_def py_str_def
      str_nat.simps digit_char_def sort_key_def)

section \<open>Decimal formatting pinned down\<close>

lemma digit_char_digit: "d < 10 \<Longrightarrow> digit_char d \<in> set ''0123456789''"
  unfolding digit_char_def by (rule nth_mem) simp

lemma str_nat_digits: "set (str_nat n) \<subseteq> set ''0123456789''"
proof (induction n rule: str_nat.induct)
  case (1 n)
  show ?case
  proof (cases "n < 10")
    case True
    with digit_char_digit [of n] show ?thesis
      by (simp add: str_nat.simps [of n])
  next
    case False
    have "n mod 10 < 10" by simp
    from digit_char_digit [OF this] 1 False show ?thesis
      by (simp add: str_nat.simps [of n])
  qed
qed

lemma digit_char_not_zero: "0 < d \<Longrightarrow> d < 10 \<Longrightarrow> digit_char d \<noteq> CHR ''0''"
proof -
  assume "0 < d" and "d < 10"
  then have "d \<in> {1, 2, 3, 4, 5, 6, 7, 8, 9}" by auto
  then show ?thesis by (auto simp: digit_char_def)
qed

lemma str_nat_no_leading_zero: "0 < n \<Longrightarrow> hd (str_nat n) \<noteq> CHR ''0''"
proof (induction n rule: str_nat.induct)
  case (1 n)
  show ?case
  proof (cases "n < 10")
    case True
    with 1(2) digit_char_not_zero [of n] show ?thesis
      by (simp add: str_nat.simps [of n])
  next
    case False
    then have pos: "0 < n div 10" by simp
    have ne: "str_nat (n div 10) \<noteq> []"
      using length_str_nat_pos [of "n div 10"] by auto
    from 1(1) [OF False pos] False ne show ?thesis
      by (simp add: str_nat.simps [of n])
  qed
qed

lemma str_nat_upper: "n < 10 ^ length (str_nat n)"
proof (induction n rule: str_nat.induct)
  case (1 n)
  show ?case
  proof (cases "n < 10")
    case True
    then show ?thesis by (simp add: str_nat.simps [of n])
  next
    case False
    with 1 have ih: "n div 10 < 10 ^ length (str_nat (n div 10))" by simp
    have "n < 10 * (n div 10 + 1)" by simp
    also from ih have "\<dots> \<le> 10 * 10 ^ length (str_nat (n div 10))" by simp
    finally show ?thesis using False by (simp add: str_nat.simps [of n])
  qed
qed

lemma str_nat_lower: "0 < n \<Longrightarrow> 10 ^ (length (str_nat n) - 1) \<le> n"
proof (induction n rule: str_nat.induct)
  case (1 n)
  show ?case
  proof (cases "n < 10")
    case True
    with 1(2) show ?thesis by (simp add: str_nat.simps [of n])
  next
    case False
    then have pos: "0 < n div 10" by simp
    from 1(1) [OF False pos] have ih: "10 ^ (length (str_nat (n div 10)) - 1) \<le> n div 10" .
    have l: "0 < length (str_nat (n div 10))" by (rule length_str_nat_pos)
    then have "(10::nat) ^ length (str_nat (n div 10)) = 10 * 10 ^ (length (str_nat (n div 10)) - 1)"
      by (cases "length (str_nat (n div 10))") simp_all
    also from ih have "\<dots> \<le> 10 * (n div 10)" by simp
    also have "\<dots> \<le> n" by simp
    finally show ?thesis using False by (simp add: str_nat.simps [of n])
  qed
qed

lemma pad_of_bounds:
  assumes "1 \<le> n"
  shows "10 ^ pad_of n \<le> n \<and> n < 10 ^ (pad_of n + 1)"
proof -
  from assms have p: "pad_of n = length (str_nat (nat n)) - 1" and pos: "0 < nat n"
    by (simp_all add: pad_of_def py_str_def)
  have l: "0 < length (str_nat (nat n))" by (rule length_str_nat_pos)
  from str_nat_lower [OF pos] have "int (10 ^ pad_of n) \<le> int (nat n)"
    unfolding p by (simp only: of_nat_le_iff)
  with assms have 1: "10 ^ pad_of n \<le> n" by simp
  from l have "pad_of n + 1 = length (str_nat (nat n))" unfolding p by simp
  with str_nat_upper [of "nat n"] have "int (nat n) < int (10 ^ (pad_of n + 1))"
    by (simp only: of_nat_less_iff)
  with assms have 2: "n < 10 ^ (pad_of n + 1)" by simp
  from 1 2 show ?thesis ..
qed

lemma setup_db_accepts:
  "min_columns st \<le> number_of_cols \<Longrightarrow> number_of_cols \<le> max_columns st \<Longrightarrow> 0 \<le> number_of_cols \<Longrightarrow>
     setup_db st number_of_cols number_of_rows col_pad row_pad
       = Inr (mytable number_of_cols col_pad row_pad)"
  by (simp add: setup_db_def create_all_def length_mytable)

text \<open>
  Claim C5, amended. For \<open>number_of_cols \<ge> 1\<close> within the column limits of the store and
  \<open>number_of_rows \<ge> 0\<close>, \<^verbatim>\<open>setup_db\<close> returns a table of exactly \<open>number_of_cols\<close>
  columns whose names are pairwise distinct. The \<open>i\<close>-th name is \<^verbatim>\<open>col\<close> followed by
  the decimal digits of \<open>i\<close> (no leading zero of their own, reading back as \<open>i\<close>) filled
  with zeros on the left up to the padding width, which is one less than the number of
  decimal digits of \<open>number_of_cols\<close>. The benchmark generates exactly \<open>number_of_rows\<close>
  rows, and the keys of each row are the column names, each once and in column order.
\<close>

theorem generated_columns_and_rows:
  assumes "1 \<le> number_of_cols" and "0 \<le> number_of_rows"
    and "min_columns st \<le> number_of_cols" and "number_of_cols \<le> max_columns st"
  shows "\<exists>t. setup_db st number_of_cols number_of_rows (pad_of number_of_cols) (pad_of number_of_rows)
               = Inr t
          \<and> int (length (tab_columns t)) = number_of_cols
          \<and> distinct (map col_name (tab_columns t))
          \<and> 10 ^ pad_of number_of_cols \<le> number_of_cols
          \<and> number_of_cols < 10 ^ (pad_of number_of_cols + 1)
          \<and> (\<forall>i < nat number_of_cols.
                col_name (tab_columns t ! i)
                  = ''col'' @ replicate (pad_of number_of_cols - length (str_nat i)) CHR ''0''
                      @ str_nat i
              \<and> digits_val (str_nat i) = i
              \<and> str_nat i \<noteq> []
              \<and> set (str_nat i) \<subseteq> set ''0123456789''
              \<and> (0 < i \<longrightarrow> hd (str_nat i) \<noteq> CHR ''0''))
          \<and> int (length (generate_rows t number_of_rows (pad_of number_of_rows)
                            (pad_of number_of_cols))) = number_of_rows
          \<and> (\<forall>row \<in> set (generate_rows t number_of_rows (pad_of number_of_rows)
                            (pad_of number_of_cols)).
                map fst row = map col_name (tab_columns t))"
proof -
  let ?t = "mytable number_of_cols (pad_of number_of_cols) (pad_of number_of_rows)"
  from assms have s: "setup_db st number_of_cols number_of_rows (pad_of number_of_cols)
      (pad_of number_of_rows) = Inr ?t"
    by (intro setup_db_accepts) simp_all
  have 1: "int (length (tab_columns ?t)) = number_of_cols"
    using assms(1) by (simp add: length_mytable)
  have 2: "distinct (map col_name (tab_columns ?t))" by (rule distinct_col_names)
  note 3 = pad_of_bounds [OF assms(1)]
  have 4: "\<forall>i < nat number_of_cols.
                col_name (tab_columns ?t ! i)
                  = ''col'' @ replicate (pad_of number_of_cols - length (str_nat i)) CHR ''0''
                      @ str_nat i
              \<and> digits_val (str_nat i) = i
              \<and> str_nat i \<noteq> []
              \<and> set (str_nat i) \<subseteq> set ''0123456789''
              \<and> (0 < i \<longrightarrow> hd (str_nat i) \<noteq> CHR ''0'')"
  proof (intro allI impI conjI)
    fix i assume "i < nat number_of_cols"
    then show "col_name (tab_columns ?t ! i)
                  = ''col'' @ replicate (pad_of number_of_cols - length (str_nat i)) CHR ''0''
                      @ str_nat i"
      by (simp add: nth_col_name fmt_zero_def)
    show "digits_val (str_nat i) = i" by (rule digits_val_str_nat)
    show "str_nat i \<noteq> []" using length_str_nat_pos [of i] by auto
    show "set (str_nat i) \<subseteq> set ''0123456789''" by (rule str_nat_digits)
  next
    fix i assume "0 < (i::nat)"
    then show "hd (str_nat i) \<noteq> CHR ''0''" by (rule str_nat_no_leading_zero)
  qed
  have 5: "int (length (generate_rows ?t number_of_rows (pad_of number_of_rows)
                            (pad_of number_of_cols))) = number_of_rows"
    using assms(2) by (simp add: length_generate_rows)
  have 6: "\<forall>row \<in> set (generate_rows ?t number_of_rows (pad_of number_of_rows)
                            (pad_of number_of_cols)).
                map fst row = map col_name (tab_columns ?t)"
    using keys_generate_rows by blast
  from s 1 2 3 4 5 6 show ?thesis by blast
qed

text \<open>
  For every column count the claim fails: SQLite takes at most 2000 columns, so at 2001
  columns and 2 rows \<^verbatim>\<open>setup_db\<close> raises, no table of 2001 columns comes to exist, and
  the benchmark ends before it generates a row.
\<close>

theorem generated_columns_and_rows_counterexample:
  "(1::int) \<le> 2001 \<and> (0::int) \<le> 2
   \<and> setup_db sqlite 2001 2 (pad_of 2001) (pad_of 2) = Inl OperationalError
   \<and> benchmark sqlite 2001 2 1 1 1000 [] = (Some OperationalError, None)"
  by (simp add: benchmark_def setup_db_def create_all_def length_mytable sqlite_def)

theorem generated_columns_and_rows_witness:
  "(1::int) \<le> 101 \<and> (0::int) \<le> 2
   \<and> min_columns sqlite \<le> 101 \<and> 101 \<le> max_columns sqlite
   \<and> (\<exists>t. setup_db sqlite 101 2 (pad_of 101) (pad_of 2) = Inr t
          \<and> int (length (tab_columns t)) = 101
          \<and> distinct (map col_name (tab_columns t)))
   \<and> setup_db sqlite 101 2 (pad_of 101) (pad_of 2) = Inr (mytable 101 2 0)
   \<and> pad_of 101 = 2
   \<and> col_name (tab_columns (mytable 101 2 0) ! 0) = ''col00''
   \<and> col_name (tab_columns (mytable 101 2 0) ! 7) = ''col07''
   \<and> col_name (tab_columns (mytable 101 2 0) ! 42) = ''col42''
   \<and> col_name (tab_columns (mytable 101 2 0) ! 100) = ''col100''
   \<and> map (\<lambda>row. (length row, row ! 7))
          (generate_rows (mytable 101 2 0) 2 (pad_of 2) (pad_of 101))
       = [(101, (''col07'', ''row0_col07'')), (101, (''col07'', ''row1_col07''))]"
proof -
  have h: "(1::int) \<le> 101" "(0::int) \<le> 2" "min_columns sqlite \<le> 101" "101 \<le> max_columns sqlite"
    by (simp_all add: sqlite_def)
  from generated_columns_and_rows [OF h]
  have a: "\<exists>t. setup_db sqlite 101 2 (pad_of 101) (pad_of 2) = Inr t
          \<and> int (length (tab_columns t)) = 101
          \<and> distinct (map col_name (tab_columns t))"
    by blast
  have p: "pad_of 101 = 2" "pad_of 2 = 0" by code_simp+
  have b: "setup_db sqlite 101 2 (pad_of 101) (pad_of 2) = Inr (mytable 101 2 0)"
    unfolding p by (rule setup_db_accepts) (simp_all add: sqlite_def)
  have c: "col_name (tab_columns (mytable 101 2 0) ! 0) = ''col00''"
    "col_name (tab_columns (mytable 101 2 0) ! 7) = ''col07''"
    "col_name (tab_columns (mytable 101 2 0) ! 42) = ''col42''"
    "col_name (tab_columns (mytable 101 2 0) ! 100) = ''col100''"
    by code_simp+
  have d: "map (\<lambda>row. (length row, row ! 7))
          (generate_rows (mytable 101 2 0) 2 (pad_of 2) (pad_of 101))
       = [(101, (''col07'', ''row0_col07'')), (101, (''col07'', ''row1_col07''))]"
    by (subst generate_rows_mytable) code_simp
  from h a b p(1) c d show ?thesis by blast
qed

section \<open>Padding widths against the largest index\<close>

text \<open>
  Claim C3 at 11 rows and 3 columns (one timed run, buffer size 1000) on a store with
  SQLite's limits. \<^verbatim>\<open>setup_db\<close> and the timed run of the first strategy succeed. The row
  padding width is \<open>1\<close>, so the row indices 0 to 10 are formatted without leading
  zeros; the stored row greatest by its first column is row 9, whose last value is
  \<^verbatim>\<open>row9_col2\<close>, while the value expected on line 73 is \<^verbatim>\<open>row10_col2\<close>, and the
  benchmark stops with the assertion error of that line.
\<close>

theorem last_row_check_fails_on_11_rows:
  "setup_db sqlite 3 11 (pad_of 3) (pad_of 11) = Inr (mytable 3 (pad_of 3) (pad_of 11))
   \<and> fst (timed_runs sqlite Params (mytable 3 (pad_of 3) (pad_of 11))
       (generate_rows (mytable 3 (pad_of 3) (pad_of 11)) 11 (pad_of 11) (pad_of 3)) 1 1 1000 [])
     = None
   \<and> first_desc (visible (snd (timed_runs sqlite Params (mytable 3 (pad_of 3) (pad_of 11))
       (generate_rows (mytable 3 (pad_of 3) (pad_of 11)) 11 (pad_of 11) (pad_of 3)) 1 1 1000 [])))
     = Some [Some ''row9_col0'', Some ''row9_col1'', Some ''row9_col2'']
   \<and> expected_last 11 3 = ''row10_col2''
   \<and> fst (benchmark sqlite 3 11 1 1 1000 []) = Some (AssertionError 73)"
  by code_simp

text \<open>
  Claim C9 at 3 columns and 2 rows, on a store with SQLite's limits. Both padding widths
  are \<open>0\<close>, every column is declared with width \<open>8\<close>, and every generated cell value has
  9 characters.
\<close>

theorem declared_width_too_small:
  "setup_db sqlite 3 2 (pad_of 3) (pad_of 2) = Inr (mytable 3 (pad_of 3) (pad_of 2))
   \<and> map col_width (tab_columns (mytable 3 (pad_of 3) (pad_of 2))) = [8, 8, 8]
   \<and> map (map snd) (generate_rows (mytable 3 (pad_of 3) (pad_of 2)) 2 (pad_of 2) (pad_of 3))
       = [[''row0_col0'', ''row0_col1'', ''row0_col2''], [''row1_col0'', ''row1_col1'', ''row1_col2'']]
   \<and> length ''row0_col0'' = 9"
  by code_simp

end
